theory Spec2Isabelle
  imports Complex_Main
begin

section \<open>Price prediction pipeline (services/analytics/src/ml/price\_prediction.py)\<close>

text \<open>
  A shallow embedding of the class \<open>PricePredictionModel\<close>. The numbers of the
  order-book records, of the feature rows and of the scaler are modelled as \<open>real\<close>,
  with exact arithmetic. The three numpy operations of \<open>predict_next\<close> that compute
  \<open>price_change\<close> and \<open>percent_change\<close> are modelled in IEEE binary64, with rounding
  to nearest, overflow to infinity and the values \<open>inf\<close> and \<open>nan\<close>.
  Where Python raises on a zero divisor the exception is a branch of the model.
  Logging has no effect on any value and is left out. The clock (\<open>datetime.now()\<close>)
  is an argument of every operation that reads it.
\<close>

subsection \<open>Exceptions\<close>

datatype error =
    AttributeError
  | ZeroDivisionError
  | JSONDecodeError
  | ValueError
  | IndexError
  | NotFittedError
  | EngineError string

subsection \<open>Strings\<close>

text \<open>\<open>str.lower()\<close> on ASCII text: the 26 capital letters are mapped, every other
  character is kept.\<close>

definition lower_char :: "char \<Rightarrow> char" where
  "lower_char c =
     (case map_of (zip ''ABCDEFGHIJKLMNOPQRSTUVWXYZ'' ''abcdefghijklmnopqrstuvwxyz'') c of
        Some d \<Rightarrow> d
      | None \<Rightarrow> c)"

definition lower :: "string \<Rightarrow> string" where
  "lower s = map lower_char s"

subsection \<open>Double precision arithmetic\<close>

text \<open>
  A numpy \<open>float64\<close>: a finite value, an infinity or \<open>nan\<close>. The negative zero is
  identified with zero (they are equal in Python), and a divisor zero is the positive
  one.
\<close>

datatype npfloat = Finite real | PosInf | NegInf | NaN

definition pow2 :: "int \<Rightarrow> real" where
  "pow2 e = (if 0 \<le> e then 2 ^ nat e else 1 / 2 ^ nat (- e))"

text \<open>The binary exponent of a positive number: \<open>find_exp n x 0\<close> is the \<open>e\<close> with
  \<open>2 ^ e \<le> x < 2 ^ (e + 1)\<close>, found by halving or doubling at most \<open>n\<close> times.\<close>

fun find_exp :: "nat \<Rightarrow> real \<Rightarrow> int \<Rightarrow> int" where
  "find_exp 0 x e = e"
| "find_exp (Suc n) x e =
     (if 2 \<le> x then find_exp n (x / 2) (e + 1)
      else if x < 1 then find_exp n (x * 2) (e - 1)
      else e)"

definition round_half_even :: "real \<Rightarrow> int" where
  "round_half_even x =
     (let f = \<lfloor>x\<rfloor>; d = x - of_int f
      in if d < 1 / 2 then f
         else if 1 / 2 < d then f + 1
         else if even f then f else f + 1)"

text \<open>
  Rounding of an exact result to binary64, to nearest with ties to even: 53
  significant bits, the least exponent \<open>-1022\<close> (below it the spacing stays
  \<open>2 ^ -1074\<close>), and a rounded magnitude of \<open>2 ^ 1024\<close> or more is an infinity.
\<close>

definition fl :: "real \<Rightarrow> npfloat" where
  "fl x =
     (if x = 0 then Finite 0
      else
        (let e = max (find_exp 2200 \<bar>x\<bar> 0) (- 1022);
             q = pow2 (e - 52);
             y = of_int (round_half_even (\<bar>x\<bar> / q)) * q
         in if pow2 1024 \<le> y then (if 0 < x then PosInf else NegInf)
            else Finite (if 0 < x then y else - y)))"

text \<open>numpy's \<open>-\<close>, \<open>*\<close> and \<open>/\<close> on \<open>float64\<close>. A division by zero raises nothing:
  it gives \<open>nan\<close> for \<open>0 / 0\<close> and an infinity otherwise.\<close>

fun np_sub :: "npfloat \<Rightarrow> npfloat \<Rightarrow> npfloat" where
  "np_sub NaN b = NaN"
| "np_sub a NaN = NaN"
| "np_sub PosInf PosInf = NaN"
| "np_sub NegInf NegInf = NaN"
| "np_sub PosInf b = PosInf"
| "np_sub NegInf b = NegInf"
| "np_sub (Finite a) PosInf = NegInf"
| "np_sub (Finite a) NegInf = PosInf"
| "np_sub (Finite a) (Finite b) = fl (a - b)"

fun np_mul :: "npfloat \<Rightarrow> npfloat \<Rightarrow> npfloat" where
  "np_mul NaN b = NaN"
| "np_mul a NaN = NaN"
| "np_mul (Finite a) (Finite b) = fl (a * b)"
| "np_mul (Finite a) PosInf = (if a = 0 then NaN else if 0 < a then PosInf else NegInf)"
| "np_mul (Finite a) NegInf = (if a = 0 then NaN else if 0 < a then NegInf else PosInf)"
| "np_mul PosInf (Finite b) = (if b = 0 then NaN else if 0 < b then PosInf else NegInf)"
| "np_mul NegInf (Finite b) = (if b = 0 then NaN else if 0 < b then NegInf else PosInf)"
| "np_mul PosInf PosInf = PosInf"
| "np_mul PosInf NegInf = NegInf"
| "np_mul NegInf PosInf = NegInf"
| "np_mul NegInf NegInf = PosInf"

fun np_div :: "npfloat \<Rightarrow> npfloat \<Rightarrow> npfloat" where
  "np_div NaN b = NaN"
| "np_div a NaN = NaN"
| "np_div (Finite a) (Finite b) =
     (if b = 0 then (if a = 0 then NaN else if 0 < a then PosInf else NegInf)
      else fl (a / b))"
| "np_div (Finite a) PosInf = Finite 0"
| "np_div (Finite a) NegInf = Finite 0"
| "np_div PosInf (Finite b) = (if 0 \<le> b then PosInf else NegInf)"
| "np_div NegInf (Finite b) = (if 0 \<le> b then NegInf else PosInf)"
| "np_div PosInf b = NaN"
| "np_div NegInf b = NaN"

subsection \<open>Data model\<close>

text \<open>A decoded order-book summary record, the result of \<open>json.loads(item)\<close>.\<close>

record OrderBookRecord =
  rec_timestamp :: int
  rec_price :: real
  rec_volume :: real
  rec_bid_price :: real
  rec_ask_price :: real
  rec_bid_volume :: real
  rec_ask_volume :: real

text \<open>A member of the sorted set as stored: either text that \<open>json.loads\<close> rejects or
  that lacks a required key (\<open>Undecodable\<close>), or a record with numeric fields.\<close>

datatype raw_item = Undecodable | Item OrderBookRecord

text \<open>One row of the data frame built by \<open>fetch_training_data\<close>.\<close>

record FeatureRow =
  timestamp :: int
  price :: real
  volume :: real
  bid_ask_spread :: real
  mid_price :: real
  imbalance :: real

datatype confidence = low | medium | high

record Prediction =
  venue :: string
  symbol :: string
  current_price :: real
  predicted_price :: real
  price_change :: npfloat
  percent_change :: npfloat
  prediction_time :: real
  time_horizon_minutes :: int
  confidence :: confidence

record TrainingMetrics =
  tm_venue :: string
  tm_symbol :: string
  tm_loss :: real
  tm_val_loss :: real
  tm_timestamp :: real
  tm_data_points :: nat

subsection \<open>The key-value store\<close>

text \<open>
  The Redis client as the class uses it, an external collaborator modelled by its
  contract: a value is set and read by key, a key is given a time to live of a number
  of seconds with \<open>expire\<close>, and a time-ordered series is read between two scores
  with \<open>zrangebyscore\<close>. A stored value is the
  \<open>json.dumps\<close> text of a dictionary; the constructor keeps the dictionary, so two
  values are equal exactly when the dictionaries are. The store is taken to be
  available: its calls return. \<open>set\<close> stores the value and discards a time to live
  the key had. \<open>expire\<close> on a key that holds a value gives it the time to live when
  the number of seconds is positive, and deletes the key when it is zero or negative.
\<close>

datatype stored = PredictionJSON Prediction | MetricsJSON TrainingMetrics

record redis =
  strings :: "string \<rightharpoonup> stored"
  ttl :: "string \<rightharpoonup> int"
  zsets :: "string \<Rightarrow> (int \<times> raw_item) list"

definition redis_set :: "redis \<Rightarrow> string \<Rightarrow> stored \<Rightarrow> redis" where
  "redis_set r k v = r\<lparr>strings := (strings r)(k \<mapsto> v), ttl := (ttl r)(k := None)\<rparr>"

definition redis_expire :: "redis \<Rightarrow> string \<Rightarrow> int \<Rightarrow> redis" where
  "redis_expire r k secs =
     (if k \<in> dom (strings r)
      then (if secs \<le> 0
            then r\<lparr>strings := (strings r)(k := None), ttl := (ttl r)(k := None)\<rparr>
            else r\<lparr>ttl := (ttl r)(k \<mapsto> secs)\<rparr>)
      else r)"

definition zrangebyscore :: "redis \<Rightarrow> string \<Rightarrow> int \<Rightarrow> int \<Rightarrow> raw_item list" where
  "zrangebyscore r k lo hi =
     map snd (filter (\<lambda>(score, member). lo \<le> score \<and> score \<le> hi) (zsets r k))"

subsection \<open>fetch\_training\_data\<close>

text \<open>Python's \<open>/\<close> on the numbers of a decoded record raises on a zero divisor.\<close>

definition py_truediv :: "real \<Rightarrow> real \<Rightarrow> error + real" where
  "py_truediv a b = (if b = 0 then Inl ZeroDivisionError else Inr (a / b))"

text \<open>\<open>int(x)\<close> of a float truncates towards zero.\<close>

definition py_int :: "real \<Rightarrow> int" where
  "py_int x = (if 0 \<le> x then \<lfloor>x\<rfloor> else \<lceil>x\<rceil>)"

text \<open>The body of the loop over \<open>raw_data\<close>: decode one item and derive its row.\<close>

definition parse_item :: "raw_item \<Rightarrow> error + FeatureRow" where
  "parse_item item =
     (case item of
        Undecodable \<Rightarrow> Inl JSONDecodeError
      | Item record \<Rightarrow>
          (case py_truediv (rec_bid_volume record)
                  (rec_bid_volume record + rec_ask_volume record) of
             Inl e \<Rightarrow> Inl e
           | Inr imb \<Rightarrow>
               Inr \<lparr>timestamp = rec_timestamp record,
                    price = rec_price record,
                    volume = rec_volume record,
                    bid_ask_spread = rec_ask_price record - rec_bid_price record,
                    mid_price = (rec_ask_price record + rec_bid_price record) / 2,
                    imbalance = imb\<rparr>))"

text \<open>The loop \<open>for item in raw_data: parsed_data.append(...)\<close>; the first item that
  raises ends it.\<close>

fun parse_loop :: "raw_item list \<Rightarrow> FeatureRow list \<Rightarrow> error + FeatureRow list" where
  "parse_loop [] parsed_data = Inr parsed_data"
| "parse_loop (item # rest) parsed_data =
     (case parse_item item of
        Inl e \<Rightarrow> Inl e
      | Inr row \<Rightarrow> parse_loop rest (parsed_data @ [row]))"

text \<open>
  \<open>fetch_training_data(venue, symbol, lookback_days)\<close>, with \<open>now\<close> the POSIX time in
  seconds that \<open>datetime.now().timestamp()\<close> gives. The result \<open>None\<close> is Python's
  \<open>None\<close>: no data in the range, or an exception caught by the \<open>except\<close> clause.
\<close>

definition fetch_training_data ::
    "redis \<Rightarrow> string \<Rightarrow> string \<Rightarrow> int \<Rightarrow> real \<Rightarrow> FeatureRow list option" where
  "fetch_training_data r ven symb lookback_days now =
     (let start_key = py_int ((now - 86400 * real_of_int lookback_days) * 1000);
          end_key = py_int (now * 1000);
          data_key = ''orderbook:'' @ lower ven @ '':'' @ lower symb @ '':summary'';
          raw_data = zrangebyscore r data_key start_key end_key
      in if raw_data = [] then None
         else (case parse_loop raw_data [] of
                 Inl e \<Rightarrow> None
               | Inr parsed_data \<Rightarrow> Some parsed_data))"

subsection \<open>\_calculate\_confidence\<close>

definition calculate_confidence :: "real \<Rightarrow> confidence" where
  "calculate_confidence pc =
     (let abs_change = \<bar>pc\<bar>
      in if abs_change > 5.0 then low
         else if abs_change > 2.0 then medium
         else high)"

text \<open>The same method on a numpy value: the magnitude of an infinity exceeds 5.0, and
  every comparison with \<open>nan\<close> is false, so \<open>nan\<close> reaches the last branch.\<close>

definition calculate_confidence_np :: "npfloat \<Rightarrow> confidence" where
  "calculate_confidence_np pc =
     (case pc of
        Finite v \<Rightarrow> calculate_confidence v
      | PosInf \<Rightarrow> low
      | NegInf \<Rightarrow> low
      | NaN \<Rightarrow> high)"

subsection \<open>The min-max scaler\<close>

text \<open>
  \<open>MinMaxScaler(feature_range=(0, 1))\<close> of scikit-learn, on a matrix given as the list
  of its rows. Fitting stores the minimum and maximum of every column, the factor
  \<open>scale_by = 1 / (max - min)\<close> (with a zero range replaced by 1) and the shift
  \<open>min_shift = 0 - min * scale_by\<close>; \<open>transform\<close> is \<open>X * scale_by + min_shift\<close> and
  \<open>inverse_transform\<close> is \<open>(X - min_shift) / scale_by\<close>. An unfitted scaler is \<open>None\<close>.
  A matrix with no rows, or with rows of another width, is rejected with ValueError.
\<close>

record scaler_state =
  data_min :: "real list"
  data_max :: "real list"
  scale_by :: "real list"
  min_shift :: "real list"

definition handle_zeros_in_scale :: "real \<Rightarrow> real" where
  "handle_zeros_in_scale d = (if d = 0 then 1 else d)"

definition scaler_fit :: "real list list \<Rightarrow> error + scaler_state" where
  "scaler_fit X =
     (case X of
        [] \<Rightarrow> Inl ValueError
      | row # rows \<Rightarrow>
          (let dmin = foldl (map2 min) row rows;
               dmax = foldl (map2 max) row rows;
               sc = map2 (\<lambda>mx mn. 1 / handle_zeros_in_scale (mx - mn)) dmax dmin;
               sh = map2 (\<lambda>mn s. 0 - mn * s) dmin sc
           in Inr \<lparr>data_min = dmin, data_max = dmax, scale_by = sc, min_shift = sh\<rparr>))"

definition scaler_transform ::
    "scaler_state option \<Rightarrow> real list list \<Rightarrow> error + real list list" where
  "scaler_transform sc X =
     (case sc of
        None \<Rightarrow> Inl NotFittedError
      | Some s \<Rightarrow>
          if X \<noteq> [] \<and> list_all (\<lambda>row. length row = length (scale_by s)) X
          then Inr (map (\<lambda>row. map2 (+) (map2 (*) row (scale_by s)) (min_shift s)) X)
          else Inl ValueError)"

definition scaler_inverse_transform ::
    "scaler_state option \<Rightarrow> real list list \<Rightarrow> error + real list list" where
  "scaler_inverse_transform sc X =
     (case sc of
        None \<Rightarrow> Inl NotFittedError
      | Some s \<Rightarrow>
          if X \<noteq> [] \<and> list_all (\<lambda>row. length row = length (scale_by s)) X
          then Inr (map (\<lambda>row. map2 (/) (map2 (-) row (min_shift s)) (scale_by s)) X)
          else Inl ValueError)"

text \<open>\<open>fit_transform\<close> resets the scaler, fits it and transforms the same matrix; the
  second component is the scaler afterwards.\<close>

definition fit_transform ::
    "real list list \<Rightarrow> (error + real list list) \<times> scaler_state option" where
  "fit_transform X =
     (case scaler_fit X of
        Inl e \<Rightarrow> (Inl e, None)
      | Inr s \<Rightarrow> (scaler_transform (Some s) X, Some s))"

subsection \<open>The sequence-model engine\<close>

text \<open>
  Keras is outside the repository: the engine is a parameter, a record of the four
  calls the class makes. \<open>'m\<close> is the type of model parameters. \<open>keras_fit\<close> works on
  the model in place, so it returns the model it leaves behind together with either the
  exception it raised or the history.
\<close>

record history =
  loss :: "real list"
  val_loss :: "real list"

record 'm engine =
  keras_load_model :: "string \<Rightarrow> error + 'm"
  keras_build :: "nat \<Rightarrow> error + 'm"
  keras_fit :: "'m \<Rightarrow> real list list list \<Rightarrow> real list \<Rightarrow> int \<Rightarrow> int \<Rightarrow>
                real list list list \<Rightarrow> real list \<Rightarrow> 'm \<times> (error + history)"
  keras_predict :: "'m \<Rightarrow> real list list list \<Rightarrow> error + real list list"

subsection \<open>The instance and its construction\<close>

record 'm PricePredictionModel =
  redis_client :: redis
  scaler :: "scaler_state option"
  model :: 'm
  sequence_length :: nat

text \<open>
  While \<open>__init__\<close> runs, the instance holds only the attributes assigned so far; an
  attribute read before its assignment raises AttributeError. \<open>None\<close> in a field below
  is an attribute not yet assigned.
\<close>

record partial_self =
  has_redis_client :: "redis option"
  has_scaler :: "scaler_state option option"
  has_sequence_length :: "nat option"

text \<open>\<open>_build_model\<close>: the first layer is built with
  \<open>input_shape=(self.sequence_length, 5)\<close>; \<open>keras_build\<close> stands for the layer and
  compile calls, which run once that argument has been read.\<close>

definition build_model :: "'m engine \<Rightarrow> partial_self \<Rightarrow> error + 'm" where
  "build_model eng self =
     (case has_sequence_length self of
        None \<Rightarrow> Inl AttributeError
      | Some S \<Rightarrow> keras_build eng S)"

text \<open>\<open>_load_model\<close>: an exception of the load is caught, and the handler returns
  \<open>self._build_model()\<close>, whose own exception leaves the method.\<close>

definition load_model :: "'m engine \<Rightarrow> partial_self \<Rightarrow> string \<Rightarrow> error + 'm" where
  "load_model eng self path =
     (case keras_load_model eng path of
        Inr m \<Rightarrow> Inr m
      | Inl e \<Rightarrow> build_model eng self)"

text \<open>\<open>__init__(redis_client, model_path)\<close>: lines 14 to 16 assign the logger, the
  client and a fresh scaler, line 17 builds or loads the model, line 18 assigns
  \<open>sequence_length = 60\<close>.\<close>

definition init :: "'m engine \<Rightarrow> redis \<Rightarrow> string option \<Rightarrow> error + 'm PricePredictionModel" where
  "init eng rc model_path =
     (let self = \<lparr>has_redis_client = Some rc, has_scaler = Some None,
                  has_sequence_length = None\<rparr>
      in case (case model_path of
                 None \<Rightarrow> build_model eng self
               | Some path \<Rightarrow> load_model eng self path) of
           Inl e \<Rightarrow> Inl e
         | Inr m \<Rightarrow>
             Inr \<lparr>redis_client = rc, scaler = None, model = m, sequence_length = 60\<rparr>)"

subsection \<open>prepare\_data\<close>

text \<open>The selection of the columns \<open>price\<close>, \<open>volume\<close>, \<open>bid_ask_spread\<close>,
  \<open>mid_price\<close> and \<open>imbalance\<close> of the data frame, in this order, as a matrix.\<close>

definition select_features :: "FeatureRow list \<Rightarrow> real list list" where
  "select_features df =
     map (\<lambda>row. [price row, volume row, bid_ask_spread row, mid_price row, imbalance row]) df"

text \<open>The slice \<open>xs[a:b]\<close> for \<open>0 \<le> a\<close>, and the element \<open>M[i, j]\<close> of a matrix, which
  raises IndexError out of range.\<close>

definition slice :: "'a list \<Rightarrow> nat \<Rightarrow> nat \<Rightarrow> 'a list" where
  "slice xs a b = take (b - a) (drop a xs)"

definition py_index2 :: "'a list list \<Rightarrow> nat \<Rightarrow> nat \<Rightarrow> error + 'a" where
  "py_index2 M i j =
     (if i < length M \<and> j < length (M ! i) then Inr (M ! i ! j) else Inl IndexError)"

text \<open>The loop \<open>for i in range(self.sequence_length, len(scaled_data))\<close>, over the list
  of the indices still to visit, with the lists \<open>X\<close> and \<open>y\<close> built so far.\<close>

fun window_loop ::
    "nat \<Rightarrow> real list list \<Rightarrow> nat list \<Rightarrow> real list list list \<Rightarrow> real list \<Rightarrow>
     error + (real list list list \<times> real list)" where
  "window_loop S scaled_data [] X y = Inr (X, y)"
| "window_loop S scaled_data (i # rest) X y =
     (case py_index2 scaled_data i 0 of
        Inl e \<Rightarrow> Inl e
      | Inr target \<Rightarrow>
          window_loop S scaled_data rest (X @ [slice scaled_data (i - S) i]) (y @ [target]))"

definition make_windows ::
    "nat \<Rightarrow> real list list \<Rightarrow> error + (real list list list \<times> real list)" where
  "make_windows S scaled_data = window_loop S scaled_data [S ..< length scaled_data] [] []"

text \<open>\<open>prepare_data(df)\<close> returns the windows, or the exception, and the instance with
  its scaler re-fitted.\<close>

definition prepare_data ::
    "'m PricePredictionModel \<Rightarrow> FeatureRow list \<Rightarrow>
     (error + (real list list list \<times> real list)) \<times> 'm PricePredictionModel" where
  "prepare_data self df =
     (let data = select_features df;
          fitted = fit_transform data;
          self1 = self\<lparr>scaler := snd fitted\<rparr>
      in case fst fitted of
           Inl e \<Rightarrow> (Inl e, self1)
         | Inr scaled_data \<Rightarrow> (make_windows (sequence_length self) scaled_data, self1))"

subsection \<open>train\<close>

definition py_last :: "'a list \<Rightarrow> error + 'a" where
  "py_last xs = (if xs = [] then Inl IndexError else Inr (last xs))"

text \<open>
  \<open>train(venue, symbol, epochs, batch_size)\<close>. \<open>now\<close> is the clock read by the fetch,
  \<open>stamp\<close> the one read for the metrics. \<open>int(len(X) * 0.8)\<close> is \<open>4 * len(X) div 5\<close>.
  The result is the value returned, or the exception that leaves the method
  (\<open>prepare_data\<close> is called outside the \<open>try\<close>), and the instance afterwards.
\<close>

definition train ::
    "'m engine \<Rightarrow> 'm PricePredictionModel \<Rightarrow> string \<Rightarrow> string \<Rightarrow> int \<Rightarrow> int \<Rightarrow> real \<Rightarrow> real \<Rightarrow>
     (error + bool) \<times> 'm PricePredictionModel" where
  "train eng self ven symb epochs batch_size now stamp =
     (case fetch_training_data (redis_client self) ven symb 30 now of
        None \<Rightarrow> (Inr False, self)
      | Some df \<Rightarrow>
          if length df < sequence_length self + 10 then (Inr False, self)
          else
            (case prepare_data self df of
               (Inl e, self1) \<Rightarrow> (Inl e, self1)
             | (Inr (X, y), self1) \<Rightarrow>
                 (let split_idx = (length X * 4) div 5;
                      X_train = take split_idx X; X_val = drop split_idx X;
                      y_train = take split_idx y; y_val = drop split_idx y
                  in case keras_fit eng (model self1) X_train y_train epochs batch_size
                            X_val y_val of
                       (m, Inl e) \<Rightarrow> (Inr False, self1\<lparr>model := m\<rparr>)
                     | (m, Inr hist) \<Rightarrow>
                         (case py_last (loss hist) of
                            Inl e \<Rightarrow> (Inr False, self1\<lparr>model := m\<rparr>)
                          | Inr final_loss \<Rightarrow>
                              (case py_last (val_loss hist) of
                                 Inl e \<Rightarrow> (Inr False, self1\<lparr>model := m\<rparr>)
                               | Inr final_val_loss \<Rightarrow>
                                   (let training_metrics =
                                          \<lparr>tm_venue = ven, tm_symbol = symb,
                                           tm_loss = final_loss,
                                           tm_val_loss = final_val_loss,
                                           tm_timestamp = stamp,
                                           tm_data_points = length X\<rparr>;
                                        metrics_key = ''ml:training:metrics:'' @ lower ven
                                                        @ '':'' @ lower symb
                                    in (Inr True,
                                        self1\<lparr>model := m,
                                              redis_client :=
                                                redis_set (redis_client self1) metrics_key
                                                  (MetricsJSON training_metrics)\<rparr>)))))))"

subsection \<open>predict\_next\<close>

text \<open>\<open>DataFrame.tail(n)\<close>: the last \<open>n\<close> rows.\<close>

definition tail :: "nat \<Rightarrow> 'a list \<Rightarrow> 'a list" where
  "tail n xs = drop (length xs - n) xs"

text \<open>
  \<open>predict_next(venue, symbol, time_horizon_minutes)\<close>; the whole body is inside
  \<open>try\<close>, so every exception gives \<open>None\<close>. \<open>now\<close> is the clock read by the fetch,
  \<open>stamp\<close> the one read for \<open>prediction_time\<close>. The subtraction, the division by
  \<open>current_price\<close> and the multiplication by 100 are numpy's, in the order of the
  source; none of them raises.
\<close>

definition predict_next ::
    "'m engine \<Rightarrow> 'm PricePredictionModel \<Rightarrow> string \<Rightarrow> string \<Rightarrow> int \<Rightarrow> real \<Rightarrow> real \<Rightarrow>
     Prediction option \<times> 'm PricePredictionModel" where
  "predict_next eng self ven symb horizon now stamp =
     (case fetch_training_data (redis_client self) ven symb 1 now of
        None \<Rightarrow> (None, self)
      | Some fetched \<Rightarrow>
          if length fetched < sequence_length self then (None, self)
          else
            (let recent_data = tail (sequence_length self) fetched;
                 data = select_features recent_data
             in case scaler_transform (scaler self) data of
                  Inl e \<Rightarrow> (None, self)
                | Inr scaled_data \<Rightarrow>
                    (case keras_predict eng (model self) [scaled_data] of
                       Inl e \<Rightarrow> (None, self)
                     | Inr predicted_scaled \<Rightarrow>
                         (case scaler_inverse_transform (scaler self)
                                 (map (\<lambda>row. row @ [0, 0, 0, 0]) predicted_scaled) of
                            Inl e \<Rightarrow> (None, self)
                          | Inr inverted \<Rightarrow>
                              (case py_index2 inverted 0 0 of
                                 Inl e \<Rightarrow> (None, self)
                               | Inr pred_price \<Rightarrow>
                                   (case py_last (map price recent_data) of
                                      Inl e \<Rightarrow> (None, self)
                                    | Inr cur_price \<Rightarrow>
                                        (let change = np_sub (Finite pred_price)
                                                        (Finite cur_price);
                                             pct_change =
                                               np_mul (np_div change (Finite cur_price))
                                                 (Finite 100);
                                             prediction =
                                               \<lparr>venue = ven, symbol = symb,
                                                current_price = cur_price,
                                                predicted_price = pred_price,
                                                price_change = change,
                                                percent_change = pct_change,
                                                prediction_time = stamp,
                                                time_horizon_minutes = horizon,
                                                confidence =
                                                  calculate_confidence_np pct_change\<rparr>;
                                             prediction_key = ''ml:predictions:'' @ lower ven
                                                                @ '':'' @ lower symb;
                                             r1 = redis_set (redis_client self) prediction_key
                                                    (PredictionJSON prediction);
                                             r2 = redis_expire r1 prediction_key (60 * horizon)
                                         in (Some prediction,
                                             self\<lparr>redis_client := r2\<rparr>))))))))"

subsection \<open>Concrete instances\<close>

text \<open>A sample record, its feature row, a record with no volume on either side, a
  store holding given items at score 999999000 under the key of BINANCE / BTC-USDT, a
  scaler fitted earlier on other data, an engine whose fit always raises, and an
  instance over such a store.\<close>

definition rec0 :: OrderBookRecord where
  "rec0 = \<lparr>rec_timestamp = 999999000, rec_price = 100, rec_volume = 10,
           rec_bid_price = 99, rec_ask_price = 101,
           rec_bid_volume = 6, rec_ask_volume = 4\<rparr>"

definition rec_zero :: OrderBookRecord where
  "rec_zero = rec0\<lparr>rec_bid_volume := 0, rec_ask_volume := 0\<rparr>"

definition row0 :: FeatureRow where
  "row0 = \<lparr>timestamp = 999999000, price = 100, volume = 10, bid_ask_spread = 2,
           mid_price = 100, imbalance = 3 / 5\<rparr>"

definition store_of :: "raw_item list \<Rightarrow> redis" where
  "store_of items =
     \<lparr>strings = Map.empty, ttl = Map.empty,
      zsets = (\<lambda>k. if k = ''orderbook:binance:btc-usdt:summary''
                    then map (\<lambda>it. (999999000, it)) items else [])\<rparr>"

definition sc0 :: scaler_state where
  "sc0 = \<lparr>data_min = [90, 0, 0, 0, 0], data_max = [110, 20, 4, 200, 1],
          scale_by = [1 / 20, 1 / 20, 1 / 4, 1 / 200, 1],
          min_shift = [- (9 / 2), 0, 0, 0, 0]\<rparr>"

definition eng0 :: "nat engine" where
  "eng0 = \<lparr>keras_load_model = (\<lambda>path. if path = ''model.h5'' then Inr 0
                                       else Inl (EngineError ''load'')),
           keras_build = (\<lambda>S. Inr 0),
           keras_fit = (\<lambda>m X y epochs batch_size X_val y_val.
                          (Suc m, Inl (EngineError ''fit''))),
           keras_predict = (\<lambda>m X. Inr [ [3 / 4] ])\<rparr>"

definition self0 :: "raw_item list \<Rightarrow> nat PricePredictionModel" where
  "self0 items = \<lparr>redis_client = store_of items, scaler = Some sc0, model = 0,
                  sequence_length = 60\<rparr>"

definition prediction0 :: Prediction where
  "prediction0 = \<lparr>venue = ''BINANCE'', symbol = ''BTC-USDT'', current_price = 100,
                  predicted_price = 105, price_change = Finite 5,
                  percent_change = Finite 5,
                  prediction_time = 1000000, time_horizon_minutes = 5,
                  confidence = medium\<rparr>"




definition matrix0 :: "real list list" where
  "matrix0 = [ [1, 0, 0, 0, 0], [2, 0, 0, 0, 0], [3, 0, 0, 0, 0], [4, 0, 0, 0, 0] ]"

section \<open>Properties\<close>

subsection \<open>The parsing loop and the fetch\<close>

lemma parse_loop_fails:
  "\<exists>it \<in> set items. isl (parse_item it) \<Longrightarrow> isl (parse_loop items acc)"
  by (induction items arbitrary: acc) (auto split: sum.splits)

lemma parse_loop_length:
  "parse_loop items acc = Inr rows \<Longrightarrow> length rows = length acc + length items"
  by (induction items arbitrary: acc) (auto split: sum.splits)

lemma parse_loop_replicate:
  "parse_item it = Inr row \<Longrightarrow> parse_loop (replicate n it) acc = Inr (acc @ replicate n row)"
  by (induction n arbitrary: acc) (simp_all add: replicate_app_Cons_same)

lemma fetch_nonempty:
  "fetch_training_data r ven symb days now = Some df \<Longrightarrow> df \<noteq> []"
  by (auto simp: fetch_training_data_def Let_def split: if_splits sum.splits
           dest: parse_loop_length)

lemma parse_item_zero:
  "rec_bid_volume rcd + rec_ask_volume rcd = 0 \<Longrightarrow>
   parse_item (Item rcd) = Inl ZeroDivisionError"
  by (simp add: parse_item_def py_truediv_def)

lemma parse_item_rec0: "parse_item (Item rec0) = Inr row0"
  by (simp add: parse_item_def py_truediv_def rec0_def row0_def)

lemma zrange_store_of:
  "zrangebyscore (store_of items) ''orderbook:binance:btc-usdt:summary'' lo hi =
     (if lo \<le> 999999000 \<and> 999999000 \<le> hi then items else [])"
  by (simp add: zrangebyscore_def store_of_def filter_map comp_def)

lemma key_binance:
  "''orderbook:'' @ lower ''BINANCE'' @ '':'' @ lower ''BTC-USDT'' @ '':summary''
     = ''orderbook:binance:btc-usdt:summary''"
  by (simp add: lower_def lower_char_def)

lemma prediction_key_binance:
  "''ml:predictions:'' @ lower ''BINANCE'' @ '':'' @ lower ''BTC-USDT''
     = ''ml:predictions:binance:btc-usdt''"
  by (simp add: lower_def lower_char_def)

lemma fetch_store_of_30:
  "fetch_training_data (store_of items) ''BINANCE'' ''BTC-USDT'' 30 1000000 =
     (if items = [] then None
      else case parse_loop items [] of Inl e \<Rightarrow> None | Inr rows \<Rightarrow> Some rows)"
  unfolding fetch_training_data_def key_binance Let_def zrange_store_of
  by (simp add: py_int_def)

lemma fetch_store_of_1:
  "fetch_training_data (store_of items) ''BINANCE'' ''BTC-USDT'' 1 1000000 =
     (if items = [] then None
      else case parse_loop items [] of Inl e \<Rightarrow> None | Inr rows \<Rightarrow> Some rows)"
  unfolding fetch_training_data_def key_binance Let_def zrange_store_of
  by (simp add: py_int_def)

lemma fetch_replicate_30:
  "fetch_training_data (store_of (replicate (Suc n) (Item rec0)))
       ''BINANCE'' ''BTC-USDT'' 30 1000000
     = Some (replicate (Suc n) row0)"
  unfolding fetch_store_of_30 parse_loop_replicate [OF parse_item_rec0]
  by simp

lemma fetch_replicate_1:
  "fetch_training_data (store_of (replicate (Suc n) (Item rec0)))
       ''BINANCE'' ''BTC-USDT'' 1 1000000
     = Some (replicate (Suc n) row0)"
  unfolding fetch_store_of_1 parse_loop_replicate [OF parse_item_rec0]
  by simp

subsection \<open>The windowing loop\<close>

lemma window_loop_maps:
  "\<forall>i \<in> set idxs. i < length M \<and> M ! i \<noteq> [] \<Longrightarrow>
   window_loop S M idxs X y =
     Inr (X @ map (\<lambda>i. slice M (i - S) i) idxs, y @ map (\<lambda>i. M ! i ! 0) idxs)"
  by (induction idxs arbitrary: X y) (simp_all add: py_index2_def)

lemma make_windows_maps:
  assumes "list_all (\<lambda>row. row \<noteq> []) M"
  shows "make_windows S M =
     Inr (map (\<lambda>i. slice M (i - S) i) [S ..< length M],
          map (\<lambda>i. M ! i ! 0) [S ..< length M])"
proof -
  have "\<forall>i \<in> set [S ..< length M]. i < length M \<and> M ! i \<noteq> []"
    using assms by (simp add: list_all_length)
  from window_loop_maps [OF this] show ?thesis
    by (simp add: make_windows_def)
qed

subsection \<open>Fitting the scaler in prepare\_data\<close>

lemma foldl_map2_length:
  "length acc = n \<Longrightarrow> list_all (\<lambda>row. length row = n) rows \<Longrightarrow>
   length (foldl (map2 f) acc rows) = n"
  by (induction rows arbitrary: acc) simp_all

lemma select_features_width:
  "list_all (\<lambda>row. length row = 5) (select_features df)"
  by (simp add: select_features_def list_all_iff)

lemma scaler_fit_width:
  assumes "X \<noteq> []" and "list_all (\<lambda>row. length row = n) X"
  shows "\<exists>s. scaler_fit X = Inr s \<and> length (scale_by s) = n \<and> length (min_shift s) = n"
proof (cases X)
  case Nil
  with assms(1) show ?thesis by simp
next
  case (Cons row rows)
  with assms(2) have r: "length row = n" and rs: "list_all (\<lambda>row. length row = n) rows"
    by simp_all
  have "length (foldl (map2 min) row rows) = n" "length (foldl (map2 max) row rows) = n"
    using r rs by (simp_all add: foldl_map2_length)
  then show ?thesis
    using Cons by (simp add: scaler_fit_def Let_def)
qed

lemma scaler_transform_width:
  assumes "X \<noteq> []" and "list_all (\<lambda>row. length row = n) X"
      and "length (scale_by s) = n" and "length (min_shift s) = n"
  shows "\<exists>Y. scaler_transform (Some s) X = Inr Y \<and> length Y = length X
             \<and> list_all (\<lambda>row. length row = n) Y"
  using assms by (simp add: scaler_transform_def list_all_iff)

text \<open>On a data frame with at least one row \<open>prepare_data\<close> raises nothing, and it
  leaves the scaler fitted to that frame.\<close>

lemma prepare_data_succeeds:
  assumes "df \<noteq> []"
  shows "\<exists>s X y. scaler_fit (select_features df) = Inr s
           \<and> prepare_data self df = (Inr (X, y), self\<lparr>scaler := Some s\<rparr>)"
proof -
  have ne: "select_features df \<noteq> []"
    using assms by (simp add: select_features_def)
  from scaler_fit_width [OF ne select_features_width]
  obtain s where s: "scaler_fit (select_features df) = Inr s"
    and w: "length (scale_by s) = 5" "length (min_shift s) = 5"
    by blast
  from scaler_transform_width [OF ne select_features_width w]
  obtain Y where Y: "scaler_transform (Some s) (select_features df) = Inr Y"
    and YW: "list_all (\<lambda>row. length row = 5) Y"
    by blast
  from YW have "list_all (\<lambda>row. row \<noteq> []) Y"
    by (auto simp: list_all_iff)
  from make_windows_maps [OF this, of "sequence_length self"] s Y show ?thesis
    by (simp add: prepare_data_def fit_transform_def Let_def)
qed

lemma map2_same: "map2 f v v = map (\<lambda>x. f x x) v"
  by (induction v) simp_all

lemma foldl_replicate_idem:
  "f v v = v \<Longrightarrow> foldl f v (replicate n v) = v"
  by (induction n) simp_all

lemma scaler_fit_replicate:
  "scaler_fit (replicate (Suc n) v) = scaler_fit [v]"
  by (simp add: scaler_fit_def foldl_replicate_idem map2_same)

subsection \<open>train when the engine's fit raises\<close>

lemma train_fit_failure:
  assumes "fetch_training_data (redis_client self) ven symb 30 now = Some df"
      and "sequence_length self + 10 \<le> length df"
      and "prepare_data self df = (Inr (X, y), self1)"
      and "keras_fit eng (model self1)
             (take ((length X * 4) div 5) X) (take ((length X * 4) div 5) y)
             epochs batch_size
             (drop ((length X * 4) div 5) X) (drop ((length X * 4) div 5) y) = (m, Inl e)"
  shows "train eng self ven symb epochs batch_size now stamp = (Inr False, self1\<lparr>model := m\<rparr>)"
  using assms by (simp add: train_def Let_def)

lemma train_example:
  "train eng0 (self0 (replicate 70 (Item rec0))) ''BINANCE'' ''BTC-USDT'' 50 32 1000000 1000000 =
     (Inr False,
      (self0 (replicate 70 (Item rec0)))
        \<lparr>scaler := Some \<lparr>data_min = [100, 10, 2, 100, 3 / 5],
                         data_max = [100, 10, 2, 100, 3 / 5],
                         scale_by = [1, 1, 1, 1, 1],
                         min_shift = [-100, -10, -2, -100, - (3 / 5)]\<rparr>,
         model := 1\<rparr>)"
proof -
  let ?self = "self0 (replicate 70 (Item rec0))"
  have f: "fetch_training_data (redis_client ?self) ''BINANCE'' ''BTC-USDT'' 30 1000000
             = Some (replicate 70 row0)"
    using fetch_replicate_30 [of 69] by (simp add: self0_def)
  have "replicate 70 row0 \<noteq> []" by simp
  from prepare_data_succeeds [OF this, of ?self]
  obtain s X y where s: "scaler_fit (select_features (replicate 70 row0)) = Inr s"
    and p: "prepare_data ?self (replicate 70 row0) = (Inr (X, y), ?self\<lparr>scaler := Some s\<rparr>)"
    by blast
  have "select_features (replicate 70 row0) = replicate (Suc 69) [100, 10, 2, 100, 3 / 5]"
    by (simp add: select_features_def row0_def)
  with s have "scaler_fit [ [100, 10, 2, 100, 3 / 5] ] = Inr s"
    by (simp only: scaler_fit_replicate)
  then have s': "s = \<lparr>data_min = [100, 10, 2, 100, 3 / 5],
                         data_max = [100, 10, 2, 100, 3 / 5],
                         scale_by = [1, 1, 1, 1, 1],
                         min_shift = [-100, -10, -2, -100, - (3 / 5)]\<rparr>"
    by (auto simp: scaler_fit_def handle_zeros_in_scale_def Let_def)
  have k: "keras_fit eng0 (model (?self\<lparr>scaler := Some s\<rparr>))
             (take ((length X * 4) div 5) X) (take ((length X * 4) div 5) y) 50 32
             (drop ((length X * 4) div 5) X) (drop ((length X * 4) div 5) y)
           = (1, Inl (EngineError ''fit''))"
    by (simp add: eng0_def self0_def)
  have len: "sequence_length ?self + 10 \<le> length (replicate 70 row0)"
    by (simp add: self0_def)
  from train_fit_failure [OF f len p k] s' show ?thesis by simp
qed

subsection \<open>Evaluating the double precision operations\<close>

lemma find_exp_numeral:
  "find_exp (numeral k) x e =
     (if 2 \<le> x then find_exp (pred_numeral k) (x / 2) (e + 1)
      else if x < 1 then find_exp (pred_numeral k) (x * 2) (e - 1)
      else e)"
  by (simp add: numeral_eq_Suc)

lemmas fl_eval = fl_def find_exp_numeral pow2_def round_half_even_def Let_def

text \<open>The exponent search finds the binary exponent whenever its fuel covers it; the
  fuel 2200 of \<open>fl\<close> covers every exponent of binary64.\<close>

lemma pow2_powi: "pow2 e = 2 powi e"
  unfolding pow2_def power_int_def
  by (simp only: inverse_eq_divide power_one_over if_cancel)

lemma pow2_pos: "0 < pow2 e"
  by (simp add: pow2_powi)

lemma pow2_Suc: "pow2 (e + 1) = 2 * pow2 e"
  by (simp add: pow2_powi power_int_add)

lemma pow2_pred: "pow2 (e - 1) = pow2 e / 2"
  using pow2_Suc [of "e - 1"] by simp

lemma pow2_less_iff: "pow2 a < pow2 b \<longleftrightarrow> a < b"
  unfolding pow2_powi
  by (metis linorder_less_linear neg_less_iff_less
    neg_numeral_less_neg_one_iff order_less_imp_not_less
    power_int_strict_increasing semiring_norm(85))

lemma pow2_0: "pow2 0 = 1"
  by (simp add: pow2_def)

lemma find_exp_spec:
  "pow2 k \<le> x \<Longrightarrow> x < pow2 (k + 1) \<Longrightarrow> nat \<bar>k\<bar> \<le> n \<Longrightarrow> find_exp n x e = e + k"
proof (induction n arbitrary: x k e)
  case 0
  then show ?case by simp
next
  case (Suc n)
  show ?case
  proof (cases "2 \<le> x")
    case True
    with Suc.prems(2) have "pow2 1 < pow2 (k + 1)" by (simp add: pow2_def)
    then have k: "1 \<le> k" by (simp add: pow2_less_iff)
    have "pow2 (k - 1) \<le> x / 2" "x / 2 < pow2 (k - 1 + 1)"
      using Suc.prems(1,2) pow2_Suc [of k] by (simp_all add: pow2_pred)
    moreover have "nat \<bar>k - 1\<bar> \<le> n" using Suc.prems(3) k by simp
    ultimately have "find_exp n (x / 2) (e + 1) = e + 1 + (k - 1)"
      by (rule Suc.IH)
    with True show ?thesis by simp
  next
    case False
    show ?thesis
    proof (cases "x < 1")
      case True
      with Suc.prems(1) have "pow2 k < pow2 0" by (simp add: pow2_0)
      then have k: "k < 0" by (simp add: pow2_less_iff)
      have "pow2 (k + 1) \<le> x * 2" "x * 2 < pow2 (k + 1 + 1)"
        using Suc.prems(1,2) pow2_Suc [of "k + 1"] by (simp_all add: pow2_Suc)
      moreover have "nat \<bar>k + 1\<bar> \<le> n" using Suc.prems(3) k by simp
      ultimately have "find_exp n (x * 2) (e - 1) = e - 1 + (k + 1)"
        by (rule Suc.IH)
      with True False show ?thesis by simp
    next
      case ge: False
      from False Suc.prems(1) have "pow2 k < pow2 1" by (simp add: pow2_def)
      then have "k < 1" by (simp add: pow2_less_iff)
      moreover from ge Suc.prems(2) have "pow2 0 < pow2 (k + 1)" by (simp add: pow2_0)
      then have "0 < k + 1" by (simp add: pow2_less_iff)
      ultimately have "k = 0" by simp
      with False ge show ?thesis by simp
    qed
  qed
qed

text \<open>The two orders of evaluation at the price change 56 and the price 49.\<close>

lemma percent_code_order:
  "np_mul (np_div (Finite 56) (Finite 49)) (Finite 100)
     = Finite (8042142191733028 / 70368744177664)"
  by (simp add: fl_eval)


subsection \<open>A prediction that succeeds\<close>

lemma predict_success_cases:
  assumes "predict_next eng self ven symb h now stamp = (Some p, self')"
  obtains fetched pred_price where
    "fetch_training_data (redis_client self) ven symb 1 now = Some fetched"
    "tail (sequence_length self) fetched \<noteq> []"
    "p = \<lparr>venue = ven, symbol = symb,
          current_price = price (last (tail (sequence_length self) fetched)),
          predicted_price = pred_price,
          price_change =
            np_sub (Finite pred_price)
              (Finite (price (last (tail (sequence_length self) fetched)))),
          percent_change =
            np_mul
              (np_div
                 (np_sub (Finite pred_price)
                    (Finite (price (last (tail (sequence_length self) fetched)))))
                 (Finite (price (last (tail (sequence_length self) fetched)))))
              (Finite 100),
          prediction_time = stamp,
          time_horizon_minutes = h,
          confidence = calculate_confidence_np
            (np_mul
              (np_div
                 (np_sub (Finite pred_price)
                    (Finite (price (last (tail (sequence_length self) fetched)))))
                 (Finite (price (last (tail (sequence_length self) fetched)))))
              (Finite 100))\<rparr>"
    "self' = self\<lparr>redis_client :=
        redis_expire
          (redis_set (redis_client self)
             (''ml:predictions:'' @ lower ven @ '':'' @ lower symb) (PredictionJSON p))
          (''ml:predictions:'' @ lower ven @ '':'' @ lower symb) (60 * h)\<rparr>"
  using assms
  by (auto simp: predict_next_def Let_def py_last_def last_map
           split: option.splits if_splits sum.splits)



lemma fetch_replicate_item_1:
  assumes "parse_item it = Inr row"
  shows "fetch_training_data (store_of (replicate (Suc n) it))
           ''BINANCE'' ''BTC-USDT'' 1 1000000
         = Some (replicate (Suc n) row)"
  unfolding fetch_store_of_1 parse_loop_replicate [OF assms]
  by simp

text \<open>The call on a store of 60 equal sound items, for any horizon: the engine's
  \<open>3 / 4\<close> is mapped back to the price 105 by the scaler.\<close>

lemma predict_replicate:
  assumes "parse_item it = Inr row"
  shows "predict_next eng0 (self0 (replicate 60 it)) ''BINANCE'' ''BTC-USDT'' h
           1000000 1000000 =
     (Some \<lparr>venue = ''BINANCE'', symbol = ''BTC-USDT'',
            current_price = price row,
            predicted_price = 105,
            price_change = np_sub (Finite 105) (Finite (price row)),
            percent_change =
              np_mul (np_div (np_sub (Finite 105) (Finite (price row))) (Finite (price row)))
                (Finite 100),
            prediction_time = 1000000,
            time_horizon_minutes = h,
            confidence = calculate_confidence_np
              (np_mul (np_div (np_sub (Finite 105) (Finite (price row))) (Finite (price row)))
                 (Finite 100))\<rparr>,
      (self0 (replicate 60 it))\<lparr>redis_client :=
         redis_expire
           (redis_set (store_of (replicate 60 it)) ''ml:predictions:binance:btc-usdt''
              (PredictionJSON
                 \<lparr>venue = ''BINANCE'', symbol = ''BTC-USDT'',
                  current_price = price row,
                  predicted_price = 105,
                  price_change = np_sub (Finite 105) (Finite (price row)),
                  percent_change =
                    np_mul
                      (np_div (np_sub (Finite 105) (Finite (price row))) (Finite (price row)))
                      (Finite 100),
                  prediction_time = 1000000,
                  time_horizon_minutes = h,
                  confidence = calculate_confidence_np
                    (np_mul
                       (np_div (np_sub (Finite 105) (Finite (price row))) (Finite (price row)))
                       (Finite 100))\<rparr>))
           ''ml:predictions:binance:btc-usdt'' (60 * h)\<rparr>)"
proof -
  have f: "fetch_training_data (redis_client (self0 (replicate 60 it)))
             ''BINANCE'' ''BTC-USDT'' 1 1000000 = Some (replicate 60 row)"
    using fetch_replicate_item_1 [OF assms, of 59] by (simp add: self0_def)
  show ?thesis
    unfolding predict_next_def f prediction_key_binance
    by (simp add: self0_def tail_def select_features_def scaler_transform_def
          scaler_inverse_transform_def sc0_def eng0_def py_index2_def py_last_def Let_def
          list_all_iff)
qed

lemma predict_example:
  "predict_next eng0 (self0 (replicate 60 (Item rec0))) ''BINANCE'' ''BTC-USDT'' 5
       1000000 1000000 =
     (Some prediction0,
      (self0 (replicate 60 (Item rec0)))\<lparr>redis_client :=
          (store_of (replicate 60 (Item rec0)))
            \<lparr>strings := [''ml:predictions:binance:btc-usdt'' \<mapsto> PredictionJSON prediction0],
             ttl := [''ml:predictions:binance:btc-usdt'' \<mapsto> 300]\<rparr>\<rparr>)"
  unfolding predict_replicate [OF parse_item_rec0]
  by (simp add: row0_def prediction0_def fl_eval calculate_confidence_np_def
        calculate_confidence_def redis_set_def redis_expire_def store_of_def)


text \<open>With a horizon that is not positive the call still returns the prediction, and
  the store is left as it was before the call: \<open>expire\<close> has deleted the key.\<close>

lemma predict_example_nonpositive:
  assumes "h \<le> 0"
  shows "predict_next eng0 (self0 (replicate 60 (Item rec0))) ''BINANCE'' ''BTC-USDT'' h
           1000000 1000000 =
         (Some (prediction0\<lparr>time_horizon_minutes := h\<rparr>), self0 (replicate 60 (Item rec0)))"
  unfolding predict_replicate [OF parse_item_rec0]
  using assms
  by (simp add: row0_def prediction0_def fl_eval calculate_confidence_np_def
        calculate_confidence_def redis_set_def redis_expire_def store_of_def self0_def)

lemma predict_nonpositive_horizon_deletes:
  assumes "predict_next eng self ven symb h now stamp = (Some p, self')" and "h \<le> 0"
  shows "strings (redis_client self') (''ml:predictions:'' @ lower ven @ '':'' @ lower symb)
           = None"
  using assms
  by (elim predict_success_cases) (simp add: redis_set_def redis_expire_def)

section \<open>The claims\<close>

text \<open>
  Claim C1. Construction is claimed to complete without raising, with or without a
  model path. In the source \<open>_build_model\<close> reads \<open>self.sequence_length\<close>, which
  \<open>__init__\<close> assigns only on the line after the model is built: construction with no
  model path raises AttributeError for every engine and every client.
\<close>

theorem init_without_path_raises:
  "init eng rc None = Inl AttributeError"
  by (simp add: init_def build_model_def)

text \<open>The same exception leaves \<open>__init__\<close> when a path is given and the load fails,
  since the handler calls \<open>_build_model\<close>; only a load that succeeds gives an
  instance.\<close>

lemma init_failed_load_raises:
  "keras_load_model eng path = Inl e \<Longrightarrow> init eng rc (Some path) = Inl AttributeError"
  by (simp add: init_def build_model_def load_model_def)

lemma init_loaded:
  "keras_load_model eng path = Inr m \<Longrightarrow>
   init eng rc (Some path) =
     Inr \<lparr>redis_client = rc, scaler = None, model = m, sequence_length = 60\<rparr>"
  by (simp add: init_def load_model_def)

text \<open>
  Claim C2, as stated, fails: with 70 rows in the store, a scaler fitted earlier and an
  engine whose fit raises, \<open>train\<close> returns \<open>False\<close> and the scaler is no longer the
  one from before the call.
\<close>

theorem train_fit_raises_counterexample:
  "fetch_training_data (redis_client (self0 (replicate 70 (Item rec0))))
       ''BINANCE'' ''BTC-USDT'' 30 1000000 = Some (replicate 70 row0)
   \<and> sequence_length (self0 (replicate 70 (Item rec0))) + 10 \<le> length (replicate 70 row0)
   \<and> fst (train eng0 (self0 (replicate 70 (Item rec0))) ''BINANCE'' ''BTC-USDT'' 50 32
            1000000 1000000) = Inr False
   \<and> scaler (snd (train eng0 (self0 (replicate 70 (Item rec0))) ''BINANCE'' ''BTC-USDT''
                    50 32 1000000 1000000))
       \<noteq> scaler (self0 (replicate 70 (Item rec0)))"
proof -
  have "fetch_training_data (redis_client (self0 (replicate 70 (Item rec0))))
          ''BINANCE'' ''BTC-USDT'' 30 1000000 = Some (replicate 70 row0)"
    using fetch_replicate_30 [of 69] by (simp add: self0_def)
  then show ?thesis
    unfolding train_example by (simp add: self0_def sc0_def)
qed

text \<open>
  Claim C2 (amended). For every \<open>train\<close> call in which the fetched data passes the
  row-count check and the engine's fit raises, \<open>train\<close> returns \<open>False\<close> and writes
  nothing to the store (no TrainingMetrics key); the scaler has been re-fitted to the
  fetched feature matrix, whatever it was before, and the model parameters are those
  the failed fit left behind.
\<close>

theorem train_fit_raises_refits_scaler:
  assumes "fetch_training_data (redis_client self) ven symb 30 now = Some df"
      and "sequence_length self + 10 \<le> length df"
      and "prepare_data self df = (Inr (X, y), self1)"
      and "keras_fit eng (model self1)
             (take ((length X * 4) div 5) X) (take ((length X * 4) div 5) y)
             epochs batch_size
             (drop ((length X * 4) div 5) X) (drop ((length X * 4) div 5) y) = (m, Inl e)"
  shows "\<exists>s. scaler_fit (select_features df) = Inr s
           \<and> train eng self ven symb epochs batch_size now stamp
               = (Inr False, self\<lparr>scaler := Some s, model := m\<rparr>)"
proof -
  from assms(2) have "df \<noteq> []" by auto
  from prepare_data_succeeds [OF this, of self] assms(3)
  obtain s where s: "scaler_fit (select_features df) = Inr s"
    and s1: "self1 = self\<lparr>scaler := Some s\<rparr>"
    by auto
  from train_fit_failure [OF assms] s s1 show ?thesis by simp
qed

theorem train_fit_raises_refits_scaler_witness:
  "\<exists>s. scaler_fit (select_features (replicate 70 row0)) = Inr s
       \<and> train eng0 (self0 (replicate 70 (Item rec0))) ''BINANCE'' ''BTC-USDT'' 50 32
            1000000 1000000
           = (Inr False, (self0 (replicate 70 (Item rec0)))\<lparr>scaler := Some s, model := 1\<rparr>)"
proof -
  let ?self = "self0 (replicate 70 (Item rec0))"
  have f: "fetch_training_data (redis_client ?self) ''BINANCE'' ''BTC-USDT'' 30 1000000
             = Some (replicate 70 row0)"
    using fetch_replicate_30 [of 69] by (simp add: self0_def)
  have len: "sequence_length ?self + 10 \<le> length (replicate 70 row0)"
    by (simp add: self0_def)
  have "replicate 70 row0 \<noteq> []" by simp
  from prepare_data_succeeds [OF this, of ?self]
  obtain X y self1 where p: "prepare_data ?self (replicate 70 row0) = (Inr (X, y), self1)"
    by blast
  have k: "keras_fit eng0 (model self1)
             (take ((length X * 4) div 5) X) (take ((length X * 4) div 5) y) 50 32
             (drop ((length X * 4) div 5) X) (drop ((length X * 4) div 5) y)
           = (Suc (model self1), Inl (EngineError ''fit''))"
    by (simp add: eng0_def)
  have "model self1 = 0"
    using p by (auto simp: prepare_data_def Let_def self0_def split: sum.splits)
  with train_fit_raises_refits_scaler [OF f len p k, of 1000000] show ?thesis
    by simp
qed




text \<open>
  Claim C4, as stated, fails: the source divides by \<open>bid_volume + ask_volume\<close> with no
  test of the divisor. With one record of zero volume between two sound records the
  division raises ZeroDivisionError, the \<open>except\<close> clause of the fetch catches it and
  the fetch returns \<open>None\<close>: the rows of the two sound records are lost, although the
  same store without the zero-volume record yields both.
\<close>

theorem fetch_zero_volume_counterexample:
  "parse_item (Item rec_zero) = Inl ZeroDivisionError
   \<and> fetch_training_data (store_of [Item rec0, Item rec_zero, Item rec0])
         ''BINANCE'' ''BTC-USDT'' 30 1000000 = None
   \<and> fetch_training_data (store_of [Item rec0, Item rec0])
         ''BINANCE'' ''BTC-USDT'' 30 1000000 = Some [row0, row0]"
  unfolding fetch_store_of_30
  by (simp add: parse_item_rec0 parse_item_zero rec_zero_def)

text \<open>
  Claim C4 (amended). For every store, venue, symbol, lookback and clock: when the
  records of the queried range contain one with \<open>bid_volume + ask_volume = 0\<close>, the
  division for that record raises ZeroDivisionError, and \<open>fetch_training_data\<close>
  returns \<open>None\<close>, that is, no feature row for any record of the range; the exception
  is caught inside the fetch and does not reach the caller.
\<close>

theorem fetch_zero_volume_returns_none:
  assumes "Item rcd \<in> set (zrangebyscore r
                 (''orderbook:'' @ lower ven @ '':'' @ lower symb @ '':summary'')
                 (py_int ((now - 86400 * real_of_int days) * 1000)) (py_int (now * 1000)))"
      and "rec_bid_volume rcd + rec_ask_volume rcd = 0"
  shows "parse_item (Item rcd) = Inl ZeroDivisionError
         \<and> fetch_training_data r ven symb days now = None"
proof -
  let ?raw = "zrangebyscore r (''orderbook:'' @ lower ven @ '':'' @ lower symb @ '':summary'')
                 (py_int ((now - 86400 * real_of_int days) * 1000)) (py_int (now * 1000))"
  have z: "parse_item (Item rcd) = Inl ZeroDivisionError"
    using assms(2) by (rule parse_item_zero)
  have "\<exists>it \<in> set ?raw. isl (parse_item it)"
    using assms(1) z by force
  then have "isl (parse_loop ?raw [])" by (rule parse_loop_fails)
  then have "fetch_training_data r ven symb days now = None"
    by (auto simp: fetch_training_data_def Let_def split: sum.splits)
  with z show ?thesis by simp
qed

theorem fetch_zero_volume_returns_none_witness:
  "rec_bid_volume rec_zero + rec_ask_volume rec_zero = 0
   \<and> parse_item (Item rec_zero) = Inl ZeroDivisionError
   \<and> fetch_training_data (store_of [Item rec0, Item rec_zero]) ''BINANCE'' ''BTC-USDT'' 30
         1000000 = None"
proof -
  have h1: "Item rec_zero \<in> set (zrangebyscore (store_of [Item rec0, Item rec_zero])
                 (''orderbook:'' @ lower ''BINANCE'' @ '':'' @ lower ''BTC-USDT'' @ '':summary'')
                 (py_int ((1000000 - 86400 * real_of_int 30) * 1000))
                 (py_int (1000000 * 1000)))"
    unfolding key_binance zrange_store_of by (simp add: py_int_def)
  have h2: "rec_bid_volume rec_zero + rec_ask_volume rec_zero = 0"
    by (simp add: rec_zero_def)
  from fetch_zero_volume_returns_none [OF h1 h2] h2 show ?thesis by simp
qed

text \<open>
  Claim C5. For every scaled feature matrix (rows of the five feature columns) of
  length \<open>L\<close> and every sequence length \<open>S < L\<close>, the windowing loop raises nothing and
  produces exactly \<open>L - S\<close> inputs and \<open>L - S\<close> targets; in ascending order, input
  \<open>i\<close> is the \<open>S\<close> rows \<open>[i, i + S)\<close> of the matrix and target \<open>i\<close> is column 0 (the
  price) of row \<open>i + S\<close>.
\<close>

theorem make_windows_spec:
  assumes "list_all (\<lambda>row. length row = 5) scaled" and "S < length scaled"
  shows "\<exists>X y. make_windows S scaled = Inr (X, y)
           \<and> length X = length scaled - S \<and> length y = length scaled - S
           \<and> (\<forall>i < length scaled - S.
                 X ! i = take S (drop i scaled) \<and> length (X ! i) = S
                 \<and> y ! i = scaled ! (i + S) ! 0)"
proof -
  have ne: "list_all (\<lambda>row. row \<noteq> []) scaled"
    using assms(1) by (auto simp: list_all_iff)
  show ?thesis
    using assms(2) by (simp add: make_windows_maps [OF ne] slice_def add.commute)
qed

theorem make_windows_spec_witness:
  "list_all (\<lambda>row. length row = 5) matrix0 \<and> 2 < length matrix0
   \<and> (\<exists>X y. make_windows 2 matrix0 = Inr (X, y)
           \<and> length X = 2 \<and> length y = 2
           \<and> X ! 0 = [ [1, 0, 0, 0, 0], [2, 0, 0, 0, 0] ] \<and> y ! 0 = 3
           \<and> X ! 1 = [ [2, 0, 0, 0, 0], [3, 0, 0, 0, 0] ] \<and> y ! 1 = 4)"
proof -
  have h1: "list_all (\<lambda>row. length row = 5) matrix0"
    by (simp add: matrix0_def)
  have h2: "2 < length matrix0"
    by (simp add: matrix0_def)
  from make_windows_spec [OF h1 h2]
  obtain X y where r: "make_windows 2 matrix0 = Inr (X, y)"
    and lx: "length X = length matrix0 - 2" and ly: "length y = length matrix0 - 2"
    and el: "\<forall>i < length matrix0 - 2.
               X ! i = take 2 (drop i matrix0) \<and> length (X ! i) = 2
               \<and> y ! i = matrix0 ! (i + 2) ! 0"
    by blast
  have l2: "length matrix0 - 2 = 2" by (simp add: matrix0_def)
  from el l2 have "X ! 0 = take 2 (drop 0 matrix0) \<and> y ! 0 = matrix0 ! (0 + 2) ! 0"
    by simp
  then have e0: "X ! 0 = [ [1, 0, 0, 0, 0], [2, 0, 0, 0, 0] ] \<and> y ! 0 = 3"
    by (simp add: matrix0_def)
  from el l2 have "X ! 1 = take 2 (drop 1 matrix0) \<and> y ! 1 = matrix0 ! (1 + 2) ! 0"
    by simp
  then have e1: "X ! 1 = [ [2, 0, 0, 0, 0], [3, 0, 0, 0, 0] ] \<and> y ! 1 = 4"
    by (simp add: matrix0_def)
  from r lx ly l2 e0 e1 h1 h2 show ?thesis by simp
qed

text \<open>
  Claim C6. For every \<open>train\<close> call where the fetch gives no data frame (no data, or an
  exception inside the fetch) or one with fewer than \<open>sequence_length + 10\<close> rows,
  \<open>train\<close> returns \<open>False\<close> and the instance is exactly as before: the store has no new
  key, and the scaler and the model parameters are untouched.
\<close>

theorem train_insufficient_data:
  assumes "case fetch_training_data (redis_client self) ven symb 30 now of
             None \<Rightarrow> True
           | Some df \<Rightarrow> length df < sequence_length self + 10"
  shows "train eng self ven symb epochs batch_size now stamp = (Inr False, self)"
  using assms by (simp add: train_def split: option.splits)

theorem train_insufficient_data_witness:
  "fetch_training_data (redis_client (self0 (replicate 69 (Item rec0))))
       ''BINANCE'' ''BTC-USDT'' 30 1000000 = Some (replicate 69 row0)
   \<and> train eng0 (self0 (replicate 69 (Item rec0))) ''BINANCE'' ''BTC-USDT'' 50 32
        1000000 1000000 = (Inr False, self0 (replicate 69 (Item rec0)))"
proof -
  have f: "fetch_training_data (redis_client (self0 (replicate 69 (Item rec0))))
             ''BINANCE'' ''BTC-USDT'' 30 1000000 = Some (replicate 69 row0)"
    using fetch_replicate_30 [of 68] by (simp add: self0_def)
  have h: "case fetch_training_data (redis_client (self0 (replicate 69 (Item rec0))))
                  ''BINANCE'' ''BTC-USDT'' 30 1000000 of
             None \<Rightarrow> True
           | Some df \<Rightarrow> length df < sequence_length (self0 (replicate 69 (Item rec0))) + 10"
    unfolding f by (simp add: self0_def)
  from train_insufficient_data [OF h] f show ?thesis by simp
qed

text \<open>
  Claim C7. For every \<open>predict_next\<close> call where the fetch over the one-day lookback
  gives no data frame or one with fewer than \<open>sequence_length\<close> rows, the call returns
  \<open>None\<close> and the instance, its store included, is exactly as before: no Prediction
  key is written.
\<close>

theorem predict_insufficient_data:
  assumes "case fetch_training_data (redis_client self) ven symb 1 now of
             None \<Rightarrow> True
           | Some rows \<Rightarrow> length rows < sequence_length self"
  shows "predict_next eng self ven symb horizon now stamp = (None, self)"
  using assms by (simp add: predict_next_def split: option.splits)

theorem predict_insufficient_data_witness:
  "fetch_training_data (redis_client (self0 (replicate 59 (Item rec0))))
       ''BINANCE'' ''BTC-USDT'' 1 1000000 = Some (replicate 59 row0)
   \<and> predict_next eng0 (self0 (replicate 59 (Item rec0))) ''BINANCE'' ''BTC-USDT'' 5
        1000000 1000000 = (None, self0 (replicate 59 (Item rec0)))"
proof -
  have f: "fetch_training_data (redis_client (self0 (replicate 59 (Item rec0))))
             ''BINANCE'' ''BTC-USDT'' 1 1000000 = Some (replicate 59 row0)"
    using fetch_replicate_1 [of 58] by (simp add: self0_def)
  have h: "case fetch_training_data (redis_client (self0 (replicate 59 (Item rec0))))
                  ''BINANCE'' ''BTC-USDT'' 1 1000000 of
             None \<Rightarrow> True
           | Some rows \<Rightarrow> length rows < sequence_length (self0 (replicate 59 (Item rec0)))"
    unfolding f by (simp add: self0_def)
  from predict_insufficient_data [OF h] f show ?thesis by simp
qed




text \<open>
  Claim C9, as stated, fails for a horizon that is not positive: line 197 passes
  \<open>60 * time_horizon_minutes\<close> to \<open>expire\<close> as it is, and with the horizon 0 the key
  is deleted. The call returns the prediction, and afterwards the store holds nothing
  under the prediction key and the key has no time to live.
\<close>

theorem predict_zero_horizon_counterexample:
  "fst (predict_next eng0 (self0 (replicate 60 (Item rec0))) ''BINANCE'' ''BTC-USDT'' 0
          1000000 1000000) = Some (prediction0\<lparr>time_horizon_minutes := 0\<rparr>)
   \<and> strings (redis_client (snd (predict_next eng0 (self0 (replicate 60 (Item rec0)))
          ''BINANCE'' ''BTC-USDT'' 0 1000000 1000000)))
        ''ml:predictions:binance:btc-usdt'' = None
   \<and> ttl (redis_client (snd (predict_next eng0 (self0 (replicate 60 (Item rec0)))
          ''BINANCE'' ''BTC-USDT'' 0 1000000 1000000)))
        ''ml:predictions:binance:btc-usdt'' \<noteq> Some (60 * 0)"
proof -
  have "predict_next eng0 (self0 (replicate 60 (Item rec0))) ''BINANCE'' ''BTC-USDT'' 0
          1000000 1000000
        = (Some (prediction0\<lparr>time_horizon_minutes := 0\<rparr>), self0 (replicate 60 (Item rec0)))"
    by (rule predict_example_nonpositive) simp
  then show ?thesis
    by (simp add: self0_def store_of_def)
qed

text \<open>
  Claim C9 (amended). For every \<open>predict_next\<close> call with a positive horizon \<open>h\<close> that
  returns a prediction, the store afterwards holds a value under the key
  \<open>ml:predictions:<venue>:<symbol>\<close>, venue and symbol in lower case, the time to live
  of that key is \<open>60 * h\<close> seconds, and every other key, its time to live and the
  sorted sets are as before: the prediction is written under that single key.
\<close>

theorem predict_key_and_ttl:
  assumes "predict_next eng self ven symb h now stamp = (Some p, self')"
      and "0 < h"
  shows "strings (redis_client self') (''ml:predictions:'' @ lower ven @ '':'' @ lower symb)
           \<noteq> None
       \<and> ttl (redis_client self') (''ml:predictions:'' @ lower ven @ '':'' @ lower symb)
           = Some (60 * h)
       \<and> (\<forall>k. k \<noteq> ''ml:predictions:'' @ lower ven @ '':'' @ lower symb \<longrightarrow>
              strings (redis_client self') k = strings (redis_client self) k
            \<and> ttl (redis_client self') k = ttl (redis_client self) k)
       \<and> zsets (redis_client self') = zsets (redis_client self)"
  using assms
  by (elim predict_success_cases) (simp add: redis_set_def redis_expire_def)

theorem predict_key_and_ttl_witness:
  "fst (predict_next eng0 (self0 (replicate 60 (Item rec0))) ''BINANCE'' ''BTC-USDT'' 5
          1000000 1000000) = Some prediction0
   \<and> ttl (redis_client (snd (predict_next eng0 (self0 (replicate 60 (Item rec0)))
          ''BINANCE'' ''BTC-USDT'' 5 1000000 1000000)))
      ''ml:predictions:binance:btc-usdt'' = Some 300
   \<and> strings (redis_client (snd (predict_next eng0 (self0 (replicate 60 (Item rec0)))
          ''BINANCE'' ''BTC-USDT'' 5 1000000 1000000)))
      ''ml:predictions:binance:btc-usdt'' \<noteq> None
   \<and> strings (redis_client (snd (predict_next eng0 (self0 (replicate 60 (Item rec0)))
          ''BINANCE'' ''BTC-USDT'' 5 1000000 1000000)))
      ''ml:predictions:BINANCE:BTC-USDT'' = None"
proof -
  have pos: "(0::int) < 5" by simp
  have ne: "''ml:predictions:BINANCE:BTC-USDT'' \<noteq>
            ''ml:predictions:'' @ lower ''BINANCE'' @ '':'' @ lower ''BTC-USDT''"
    unfolding prediction_key_binance by simp
  have old: "strings (redis_client (self0 (replicate 60 (Item rec0))))
               ''ml:predictions:BINANCE:BTC-USDT'' = None"
    by (simp add: self0_def store_of_def)
  from predict_key_and_ttl [OF predict_example pos] ne old show ?thesis
    unfolding predict_example prediction_key_binance by simp
qed

text \<open>
  Claim C10, as stated, fails for a horizon that is not positive: with the horizon
  \<open>-1\<close> the call returns the prediction to the caller, but \<open>expire\<close> has deleted the
  key, so a reader of the store finds no prediction.
\<close>

theorem predict_negative_horizon_counterexample:
  "fst (predict_next eng0 (self0 (replicate 60 (Item rec0))) ''BINANCE'' ''BTC-USDT'' (- 1)
          1000000 1000000) = Some (prediction0\<lparr>time_horizon_minutes := - 1\<rparr>)
   \<and> strings (redis_client (snd (predict_next eng0 (self0 (replicate 60 (Item rec0)))
          ''BINANCE'' ''BTC-USDT'' (- 1) 1000000 1000000)))
        ''ml:predictions:binance:btc-usdt''
       \<noteq> Some (PredictionJSON (prediction0\<lparr>time_horizon_minutes := - 1\<rparr>))"
proof -
  have "predict_next eng0 (self0 (replicate 60 (Item rec0))) ''BINANCE'' ''BTC-USDT'' (- 1)
          1000000 1000000
        = (Some (prediction0\<lparr>time_horizon_minutes := - 1\<rparr>),
           self0 (replicate 60 (Item rec0)))"
    by (rule predict_example_nonpositive) simp
  then show ?thesis
    by (simp add: self0_def store_of_def)
qed

text \<open>
  Claim C10 (amended). For every \<open>predict_next\<close> call with a positive horizon that
  returns a prediction, the value held in the store under the prediction key is the
  serialisation of exactly the record returned to the caller.
\<close>

theorem predict_returns_persisted_record:
  assumes "predict_next eng self ven symb h now stamp = (Some p, self')"
      and "0 < h"
  shows "strings (redis_client self') (''ml:predictions:'' @ lower ven @ '':'' @ lower symb)
           = Some (PredictionJSON p)"
  using assms
  by (elim predict_success_cases) (simp add: redis_set_def redis_expire_def)

theorem predict_returns_persisted_record_witness:
  "fst (predict_next eng0 (self0 (replicate 60 (Item rec0)))
          ''BINANCE'' ''BTC-USDT'' 5 1000000 1000000) = Some prediction0
   \<and> strings (redis_client (snd (predict_next eng0 (self0 (replicate 60 (Item rec0)))
          ''BINANCE'' ''BTC-USDT'' 5 1000000 1000000)))
      ''ml:predictions:binance:btc-usdt'' = Some (PredictionJSON prediction0)"
proof -
  have pos: "(0::int) < 5" by simp
  from predict_returns_persisted_record [OF predict_example pos] show ?thesis
    unfolding predict_example prediction_key_binance by simp
qed

end
